theory Spec2Isabelle
  imports Complex_Main "HOL-Library.Char_ord" "HOL-Library.List_Lexorder"
    "HOL-Library.Option_ord" "HOL-Library.Product_Lexorder"
begin

section \<open>Identities, replies and JavaScript truthiness\<close>

text \<open>
  Object ids are strings in the store's canonical form (24 hexadecimal digits); two ids
  denote the same document exactly when the strings are equal. The model covers requests
  whose ids are well formed: the store cannot cast any other string to an id. Dates are milliseconds since the
  epoch. The token middleware has already run: a handler receives the verified identity
  \<open>req.user\<close> with its \<open>id\<close> and \<open>role\<close>.
\<close>

type_synonym oid = string

datatype user_role = Admin | Teacher | Student

record identity =
  uid :: oid
  role :: user_role

text \<open>
  \<open>res.status(n).json({ message })\<close> on a rejecting branch is \<open>Fail n message\<close>;
  a successful \<open>res.status(n).json(body)\<close> (200 when no status is set) is \<open>Json n body\<close>.
\<close>

datatype 'a reply = Fail nat string | Json nat 'a

text \<open>A string-valued request field: \<open>undefined\<close> and the empty string are falsy.\<close>

definition truthy :: "string option \<Rightarrow> bool" where
  "truthy v = (case v of None \<Rightarrow> False | Some s \<Rightarrow> s \<noteq> [])"

text \<open>middleware/auth.js, \<open>authorizeRoles\<close>: the caller's role must be in the allowed list.\<close>

definition authorizeRoles :: "user_role list \<Rightarrow> identity \<Rightarrow> bool" where
  "authorizeRoles roles u = (role u \<in> set roles)"

definition insufficient :: string where
  "insufficient = ''Access denied. Insufficient permissions.''"

section \<open>Documents\<close>

record user =
  u_id :: oid
  u_username :: string
  u_role :: user_role
  u_email :: string
  u_firstName :: string
  u_lastName :: string

record course =
  c_id :: oid
  c_name :: string
  c_courseCode :: string
  c_description :: "string option"
  c_teacherId :: "oid option"
  c_students :: "oid list"
  c_createdAt :: int

text \<open>
  The generated \<open>_id\<close> of a grade or an attendance record is left out: no modelled
  operation reads it. Neither schema declares \<open>reason\<close>, so the store never holds one.
\<close>

record grade =
  g_studentId :: oid
  g_courseId :: oid
  g_assignmentId :: "oid option"
  g_score :: rat
  g_comment :: "string option"
  g_gradedBy :: oid
  g_gradedAt :: int

record attendance =
  a_studentId :: oid
  a_courseId :: oid
  a_date :: int
  a_status :: string
  a_recordedBy :: oid
  a_recordedAt :: int

text \<open>
  An infraction is kept as the list of the paths it holds, since which paths a stored
  infraction has is itself in question.
\<close>

datatype jsval = Str string | Num int | Bool bool

type_synonym doc = "(string \<times> jsval) list"

record db =
  users :: "user list"
  courses :: "course list"
  grades :: "grade list"
  attendances :: "attendance list"
  infractions :: "doc list"

definition Course_findById :: "db \<Rightarrow> oid \<Rightarrow> course option" where
  "Course_findById d i = find (\<lambda>c. c_id c = i) (courses d)"


text \<open>\<open>course.save()\<close> on a document that was read from the store: the stored document
  with that id is replaced.\<close>

definition Course_save :: "course \<Rightarrow> db \<Rightarrow> db" where
  "Course_save c d = d\<lparr>courses := map (\<lambda>x. if c_id x = c_id c then c else x) (courses d)\<rparr>"

text \<open>\<open>User.findOne({ _id: i, role: r })\<close>\<close>

definition User_findOne_role :: "db \<Rightarrow> oid option \<Rightarrow> user_role \<Rightarrow> user option" where
  "User_findOne_role d i r = find (\<lambda>x. Some (u_id x) = i \<and> u_role x = r) (users d)"

text \<open>
  The guard \<open>req.user.role === 'teacher' && course.teacherId.toString() !== req.user.id\<close>
  that the handlers repeat. \<open>teacherId\<close> is optional in the schema; calling
  \<open>toString\<close> on a missing one throws, which the handler's \<open>catch\<close> turns into a 500.
\<close>

datatype guard = Pass | Deny | Throw

definition teaches :: "identity \<Rightarrow> course \<Rightarrow> guard" where
  "teaches u c =
     (if role u = Teacher
      then (case c_teacherId c of
              None \<Rightarrow> Throw
            | Some t \<Rightarrow> if t \<noteq> uid u then Deny else Pass)
      else Pass)"

section \<open>routes/courses.js\<close>

record course_body =
  cb_name :: "string option"
  cb_courseCode :: "string option"
  cb_description :: "string option"
  cb_teacherId :: "oid option"

text \<open>Schema validation on \<open>save\<close>: \<open>name\<close> and \<open>courseCode\<close> are required strings.\<close>

definition course_valid :: "course_body \<Rightarrow> bool" where
  "course_valid b = (truthy (cb_name b) \<and> truthy (cb_courseCode b))"

text \<open>
  \<open>POST /api/courses\<close>. \<open>nid\<close> is the id the driver generates for the new document and
  \<open>now\<close> the clock reading for \<open>createdAt\<close>.
\<close>

definition create_course ::
  "oid \<Rightarrow> int \<Rightarrow> identity \<Rightarrow> course_body \<Rightarrow> db \<Rightarrow> course reply \<times> db" where
  "create_course nid now u b d =
     (if \<not> authorizeRoles [Admin, Teacher] u then (Fail 403 insufficient, d)
      else if find (\<lambda>c. Some (c_courseCode c) = cb_courseCode b) (courses d) \<noteq> None
        then (Fail 400 ''Course with this code already exists'', d)
      else if truthy (cb_teacherId b) \<and> User_findOne_role d (cb_teacherId b) Teacher = None
        then (Fail 400 ''Invalid teacher ID'', d)
      else
        (case (cb_name b, cb_courseCode b) of
           (Some name, Some courseCode) \<Rightarrow>
             if \<not> course_valid b then (Fail 500 ''Server error creating course'', d)
             else
               (let newCourse =
                  \<lparr>c_id = nid, c_name = name, c_courseCode = courseCode,
                   c_description = cb_description b,
                   c_teacherId =
                     (if truthy (cb_teacherId b) then cb_teacherId b else Some (uid u)),
                   c_students = [], c_createdAt = now\<rparr>
                in (Json 201 newCourse, d\<lparr>courses := courses d @ [newCourse]\<rparr>))
         | _ \<Rightarrow> (Fail 500 ''Server error creating course'', d)))"


text \<open>\<open>DELETE /api/courses/:id/students/:studentId\<close>\<close>

definition unenroll :: "identity \<Rightarrow> oid \<Rightarrow> oid \<Rightarrow> db \<Rightarrow> course reply \<times> db" where
  "unenroll u cid studentId d =
     (if \<not> authorizeRoles [Admin, Teacher] u then (Fail 403 insufficient, d)
      else case Course_findById d cid of
        None \<Rightarrow> (Fail 404 ''Course not found'', d)
      | Some course \<Rightarrow>
         (case teaches u course of
            Throw \<Rightarrow> (Fail 500 ''Server error removing student from course'', d)
          | Deny \<Rightarrow> (Fail 403 ''Access denied'', d)
          | Pass \<Rightarrow>
             (let course' = course\<lparr>c_students := filter (\<lambda>i. i \<noteq> studentId) (c_students course)\<rparr>
              in (Json 200 course', Course_save course' d))))"

section \<open>Filtered, sorted and paginated reads\<close>

text \<open>
  A query object holds, per path, no condition, an equality or an \<open>$in\<close> list.
\<close>

datatype 'a cond = Any | Eq 'a | In "'a list"

fun holds :: "'a cond \<Rightarrow> 'a \<Rightarrow> bool" where
  "holds Any x = True"
| "holds (Eq v) x = (x = v)"
| "holds (In vs) x = (x \<in> set vs)"

text \<open>\<open>if (v) query.path = v\<close>\<close>

definition eq_filter :: "string option \<Rightarrow> string cond" where
  "eq_filter v = (case v of None \<Rightarrow> Any | Some s \<Rightarrow> if s = [] then Any else Eq s)"

text \<open>
  \<open>const [field, order] = sort.split(':')\<close>: the text before the first colon, and the
  text between the first and the second.
\<close>

definition split_field :: "string \<Rightarrow> string" where
  "split_field s = takeWhile (\<lambda>c. c \<noteq> CHR '':'') s"

definition split_order :: "string \<Rightarrow> string" where
  "split_order s = takeWhile (\<lambda>c. c \<noteq> CHR '':'') (drop 1 (dropWhile (\<lambda>c. c \<noteq> CHR '':'') s))"

text \<open>The store's \<open>sort({ path: 1 })\<close> and \<open>sort({ path: -1 })\<close>.\<close>

definition order_by :: "('a \<Rightarrow> 'k::linorder) \<Rightarrow> bool \<Rightarrow> 'a list \<Rightarrow> 'a list" where
  "order_by key desc xs = (if desc then rev (sort_key key xs) else sort_key key xs)"

text \<open>
  The reply of a list endpoint. \<open>page\<close> and \<open>limit\<close> are the non-negative numbers the
  query strings denote. The store rejects a negative \<open>skip\<close> (the handler's \<open>catch\<close> makes
  it a 500, here \<open>None\<close>) and reads \<open>limit(0)\<close> as no limit; \<open>Math.ceil(total / 0)\<close> is
  not a number and serialises as \<open>null\<close>.
\<close>

record 'a listing =
  items :: "'a list"
  total :: nat
  page :: nat
  pages :: "nat option"

definition window :: "nat \<Rightarrow> nat \<Rightarrow> 'a list \<Rightarrow> 'a list" where
  "window skip limit xs = (if limit = 0 then drop skip xs else take limit (drop skip xs))"

definition paginate :: "nat option \<Rightarrow> nat option \<Rightarrow> nat \<Rightarrow> 'a list \<Rightarrow> 'a listing option" where
  "paginate pageq limitq dflt xs =
     (let p = (case pageq of None \<Rightarrow> 1 | Some n \<Rightarrow> n);
          l = (case limitq of None \<Rightarrow> dflt | Some n \<Rightarrow> n)
      in if p = 0 \<and> 0 < l then None
         else Some \<lparr>items = window ((p - 1) * l) l xs, total = length xs, page = p,
                     pages = (if l = 0 then None else Some ((length xs + l - 1) div l))\<rparr>)"

section \<open>routes/grades.js\<close>



record grade_query =
  q_studentId :: "oid cond"
  q_courseId :: "oid cond"

definition grade_matches :: "grade_query \<Rightarrow> grade \<Rightarrow> bool" where
  "grade_matches q g =
     (holds (q_studentId q) (g_studentId g) \<and> holds (q_courseId q) (g_courseId g))"

text \<open>
  Sorting on a path the caller names; a path the model does not carry leaves the order
  of the store. Without a caller sort, newest first.
\<close>

definition sort_grades :: "string option \<Rightarrow> grade list \<Rightarrow> grade list" where
  "sort_grades srt xs =
     (if truthy srt then
        (case srt of
           None \<Rightarrow> xs
         | Some s \<Rightarrow>
            (let field = split_field s; desc = (split_order s = ''desc'')
             in if field = ''studentId'' then order_by g_studentId desc xs
                else if field = ''courseId'' then order_by g_courseId desc xs
                else if field = ''assignmentId'' then order_by g_assignmentId desc xs
                else if field = ''score'' then order_by g_score desc xs
                else if field = ''comment'' then order_by g_comment desc xs
                else if field = ''gradedBy'' then order_by g_gradedBy desc xs
                else if field = ''gradedAt'' then order_by g_gradedAt desc xs
                else xs))
      else order_by g_gradedAt True xs)"

record grades_params =
  p_studentId :: "oid option"
  p_courseId :: "oid option"
  p_sort :: "string option"
  p_page :: "nat option"
  p_limit :: "nat option"

text \<open>
  \<open>Grade.find(query).skip(skip).limit(limit)\<close> with the sort, and \<open>countDocuments\<close>.
  Populating the references decorates the records that were selected and is left out.
\<close>

definition Grade_find :: "grade_query \<Rightarrow> grades_params \<Rightarrow> db \<Rightarrow> grade listing reply" where
  "Grade_find query p d =
     (case paginate (p_page p) (p_limit p) 20
             (sort_grades (p_sort p) (filter (grade_matches query) (grades d))) of
        None \<Rightarrow> Fail 500 ''Server error fetching grades''
      | Some l \<Rightarrow> Json 200 l)"

text \<open>\<open>GET /api/grades\<close>\<close>

definition list_grades :: "identity \<Rightarrow> grades_params \<Rightarrow> db \<Rightarrow> grade listing reply" where
  "list_grades u p d =
     (let query = \<lparr>q_studentId = eq_filter (p_studentId p),
                   q_courseId = eq_filter (p_courseId p)\<rparr>
      in case role u of
           Student \<Rightarrow> Grade_find (query\<lparr>q_studentId := Eq (uid u)\<rparr>) p d
         | Teacher \<Rightarrow>
             if \<not> truthy (p_courseId p) \<and> \<not> truthy (p_studentId p) then
               (let teacherCourses = filter (\<lambda>c. c_teacherId c = Some (uid u)) (courses d);
                    courseIds = map c_id teacherCourses
                in Grade_find (query\<lparr>q_courseId := In courseIds\<rparr>) p d)
             else
               (case p_courseId p of
                  None \<Rightarrow> Grade_find query p d
                | Some courseId \<Rightarrow>
                    if courseId = [] then Grade_find query p d
                    else
                      (case Course_findById d courseId of
                         None \<Rightarrow> Fail 403 ''Access denied to this course''
                       | Some course \<Rightarrow>
                           (case c_teacherId course of
                              None \<Rightarrow> Fail 500 ''Server error fetching grades''
                            | Some t \<Rightarrow>
                                if t \<noteq> uid u then Fail 403 ''Access denied to this course''
                                else Grade_find query p d)))
         | Admin \<Rightarrow> Grade_find query p d)"








section \<open>routes/users.js\<close>






section \<open>routes/attendance.js\<close>















section \<open>models/Infraction.js and routes/infractions.js\<close>

text \<open>
  The paths \<open>infractionSchema\<close> declares. The schema is built without options, so it is
  strict: \<open>new Infraction(obj)\<close> keeps the declared paths of \<open>obj\<close> that have a value and
  drops every other key.
\<close>

definition infractionSchema :: "string list" where
  "infractionSchema = [''studentId'', ''type'', ''description'', ''date'', ''reportedBy'']"

definition Infraction_new :: "(string \<times> jsval option) list \<Rightarrow> doc" where
  "Infraction_new obj =
     concat (map (\<lambda>(k, v). case v of
                              None \<Rightarrow> []
                            | Some x \<Rightarrow> if k \<in> set infractionSchema then [(k, x)] else []) obj)"

text \<open>Validation on \<open>save\<close>: the required paths and the \<open>enum\<close> of \<open>type\<close>.\<close>

definition required_str :: "doc \<Rightarrow> string \<Rightarrow> bool" where
  "required_str x k = (case map_of x k of Some (Str s) \<Rightarrow> s \<noteq> [] | _ \<Rightarrow> False)"

definition infraction_valid :: "doc \<Rightarrow> bool" where
  "infraction_valid x =
     (required_str x ''studentId'' \<and> required_str x ''description'' \<and>
      (case map_of x ''type'' of
         Some (Str t) \<Rightarrow> t \<in> set [''behavioral'', ''academic'', ''attendance'', ''other'']
       | _ \<Rightarrow> False))"

record infraction_body =
  ib_studentId :: "oid option"
  ib_type :: "string option"
  ib_description :: "string option"
  ib_severity :: "string option"
  ib_date :: "int option"
  ib_resolution :: "string option"

text \<open>\<open>v || dflt\<close> on a string-valued field\<close>

definition or_else :: "string option \<Rightarrow> string \<Rightarrow> string" where
  "or_else v dflt = (case v of None \<Rightarrow> dflt | Some s \<Rightarrow> if s = [] then dflt else s)"

text \<open>\<open>POST /api/infractions\<close>\<close>

definition create_infraction ::
  "int \<Rightarrow> identity \<Rightarrow> infraction_body \<Rightarrow> db \<Rightarrow> doc reply \<times> db" where
  "create_infraction now u b d =
     (if \<not> authorizeRoles [Admin, Teacher] u then (Fail 403 insufficient, d)
      else if User_findOne_role d (ib_studentId b) Student = None
        then (Fail 404 ''Student not found'', d)
      else
        (let newInfraction = Infraction_new
               [(''studentId'', map_option Str (ib_studentId b)),
                (''type'', map_option Str (ib_type b)),
                (''description'', map_option Str (ib_description b)),
                (''severity'', Some (Str (or_else (ib_severity b) ''minor''))),
                (''date'', Some (Num (case ib_date b of None \<Rightarrow> now | Some t \<Rightarrow> t))),
                (''reportedBy'', Some (Str (uid u))),
                (''resolution'', map_option Str (ib_resolution b)),
                (''resolved'', Some (Bool (truthy (ib_resolution b))))]
         in if \<not> infraction_valid newInfraction
              then (Fail 500 ''Server error recording infraction'', d)
            else (Json 201 newInfraction, d\<lparr>infractions := infractions d @ [newInfraction]\<rparr>)))"

section \<open>Invariants of the store\<close>






text \<open>The ids of the courses whose \<open>teacherId\<close> is the caller: the scope of a teacher.\<close>

definition owned_courses :: "identity \<Rightarrow> db \<Rightarrow> oid list" where
  "owned_courses u d = map c_id (filter (\<lambda>c. c_teacherId c = Some (uid u)) (courses d))"


section \<open>A small school\<close>

text \<open>
  One admin, two teachers and three students; \<open>t1\<close> teaches \<open>c1\<close> and \<open>t2\<close> teaches \<open>c2\<close>.
  Student \<open>s1\<close> has a grade in each course and one recorded absence in \<open>c1\<close>. The
  ids \<open>s9\<close> and \<open>c9\<close> name no document, and \<open>c3\<close> is the id of the next course.
\<close>

abbreviation id_a1 :: oid where
  "id_a1 \<equiv> ''64f1a0000000000000000a01''"

abbreviation id_t1 :: oid where
  "id_t1 \<equiv> ''64f1a0000000000000000b01''"

abbreviation id_t2 :: oid where
  "id_t2 \<equiv> ''64f1a0000000000000000b02''"

abbreviation id_s1 :: oid where
  "id_s1 \<equiv> ''64f1a0000000000000000c01''"

abbreviation id_s2 :: oid where
  "id_s2 \<equiv> ''64f1a0000000000000000c02''"

abbreviation id_s3 :: oid where
  "id_s3 \<equiv> ''64f1a0000000000000000c03''"


abbreviation id_c1 :: oid where
  "id_c1 \<equiv> ''64f1a0000000000000000d01''"

abbreviation id_c2 :: oid where
  "id_c2 \<equiv> ''64f1a0000000000000000d02''"

abbreviation id_c3 :: oid where
  "id_c3 \<equiv> ''64f1a0000000000000000d03''"


definition user_a1 :: user where
  "user_a1 = \<lparr>u_id = id_a1, u_username = ''root'', u_role = Admin, u_email = ''root@school'',
     u_firstName = ''Ada'', u_lastName = ''Root''\<rparr>"

definition user_t1 :: user where
  "user_t1 = \<lparr>u_id = id_t1, u_username = ''tone'', u_role = Teacher, u_email = ''t1@school'',
     u_firstName = ''Tom'', u_lastName = ''One''\<rparr>"

definition user_t2 :: user where
  "user_t2 = \<lparr>u_id = id_t2, u_username = ''ttwo'', u_role = Teacher, u_email = ''t2@school'',
     u_firstName = ''Tia'', u_lastName = ''Two''\<rparr>"

definition user_s1 :: user where
  "user_s1 = \<lparr>u_id = id_s1, u_username = ''sone'', u_role = Student, u_email = ''s1@school'',
     u_firstName = ''Sam'', u_lastName = ''Alpha''\<rparr>"

definition user_s2 :: user where
  "user_s2 = \<lparr>u_id = id_s2, u_username = ''stwo'', u_role = Student, u_email = ''s2@school'',
     u_firstName = ''Sue'', u_lastName = ''Beta''\<rparr>"

definition user_s3 :: user where
  "user_s3 = \<lparr>u_id = id_s3, u_username = ''sthree'', u_role = Student,
     u_email = ''s3@school'', u_firstName = ''Sid'', u_lastName = ''Gamma''\<rparr>"

definition school_users :: "user list" where
  "school_users = [user_a1, user_t1, user_t2, user_s3, user_s1, user_s2]"

definition course_c1 :: course where
  "course_c1 = \<lparr>c_id = id_c1, c_name = ''Algebra'', c_courseCode = ''ALG'',
     c_description = None, c_teacherId = Some id_t1, c_students = [id_s1, id_s2],
     c_createdAt = 0\<rparr>"

definition course_c2 :: course where
  "course_c2 = \<lparr>c_id = id_c2, c_name = ''Biology'', c_courseCode = ''BIO'',
     c_description = None, c_teacherId = Some id_t2, c_students = [id_s1],
     c_createdAt = 0\<rparr>"

definition grade_g1 :: grade where
  "grade_g1 = \<lparr>g_studentId = id_s1, g_courseId = id_c1, g_assignmentId = None,
     g_score = 85, g_comment = None, g_gradedBy = id_t1, g_gradedAt = 10\<rparr>"

definition grade_g2 :: grade where
  "grade_g2 = \<lparr>g_studentId = id_s1, g_courseId = id_c2, g_assignmentId = None,
     g_score = 70, g_comment = None, g_gradedBy = id_t2, g_gradedAt = 20\<rparr>"

definition absence_a1 :: attendance where
  "absence_a1 = \<lparr>a_studentId = id_s1, a_courseId = id_c1, a_date = 1000,
     a_status = ''absent'', a_recordedBy = id_t1, a_recordedAt = 1001\<rparr>"

definition school :: db where
  "school = \<lparr>users = school_users, courses = [course_c1, course_c2],
     grades = [grade_g1, grade_g2], attendances = [absence_a1], infractions = []\<rparr>"



definition admin_a1 :: identity where
  "admin_a1 = \<lparr>uid = id_a1, role = Admin\<rparr>"

definition teacher_t1 :: identity where
  "teacher_t1 = \<lparr>uid = id_t1, role = Teacher\<rparr>"

section \<open>Properties\<close>

lemmas school_defs = school_def school_users_def user_a1_def user_t1_def user_t2_def
  user_s1_def user_s2_def user_s3_def course_c1_def course_c2_def grade_g1_def grade_g2_def
  absence_a1_def admin_a1_def teacher_t1_def

lemma find_id: "find (\<lambda>c. c_id c = i) xs = Some c \<Longrightarrow> c_id c = i"
  by (induction xs) (auto split: if_splits)

lemma Course_findById_id: "Course_findById d i = Some c \<Longrightarrow> c_id c = i"
  unfolding Course_findById_def by (rule find_id)

lemma find_map_replace:
  "find (\<lambda>c. c_id c = i) xs = Some c \<Longrightarrow> c_id c' = i \<Longrightarrow>
   find (\<lambda>c. c_id c = i) (map (\<lambda>x. if c_id x = i then c' else x) xs) = Some c'"
  by (induction xs) (auto split: if_splits)

lemma Course_findById_save:
  "Course_findById d i = Some c \<Longrightarrow> c_id c' = i \<Longrightarrow> Course_findById (Course_save c' d) i = Some c'"
  unfolding Course_findById_def Course_save_def by (simp add: find_map_replace)






text \<open>
  Claim C8. Removing a student who is not on the course's list succeeds with status 200
  and the course as it was; the stored course is unchanged; and doing it a second time
  succeeds again with the same course and the same stored list.
\<close>

theorem unenroll_absent_student_is_noop:
  assumes "authorizeRoles [Admin, Teacher] u" and "Course_findById d cid = Some c"
    and "teaches u c = Pass" and "s \<notin> set (c_students c)"
  shows "fst (unenroll u cid s d) = Json 200 c \<and>
         Course_findById (snd (unenroll u cid s d)) cid = Some c \<and>
         fst (unenroll u cid s (snd (unenroll u cid s d))) = Json 200 c \<and>
         Course_findById (snd (unenroll u cid s (snd (unenroll u cid s d)))) cid = Some c"
proof -
  have f: "filter (\<lambda>i. i \<noteq> s) (c_students c) = c_students c"
    using assms(4) by (auto simp: filter_id_conv)
  have i: "c_id c = cid" using assms(2) by (rule Course_findById_id)
  have r: "unenroll u cid s d = (Json 200 c, Course_save c d)"
    using assms f by (simp add: unenroll_def)
  have k: "Course_findById (Course_save c d) cid = Some c"
    using assms(2) i by (rule Course_findById_save)
  have r2: "unenroll u cid s (Course_save c d) = (Json 200 c, Course_save c (Course_save c d))"
    using assms(1,3) k f by (simp add: unenroll_def)
  have k2: "Course_findById (Course_save c (Course_save c d)) cid = Some c"
    using k i by (rule Course_findById_save)
  show ?thesis by (simp add: r r2 k k2)
qed

theorem unenroll_absent_student_is_noop_witness:
  "authorizeRoles [Admin, Teacher] teacher_t1 \<and> Course_findById school id_c1 = Some course_c1 \<and>
   teaches teacher_t1 course_c1 = Pass \<and> id_s3 \<notin> set (c_students course_c1) \<and>
   fst (unenroll teacher_t1 id_c1 id_s3 school) = Json 200 course_c1 \<and>
   fst (unenroll teacher_t1 id_c1 id_s3 (snd (unenroll teacher_t1 id_c1 id_s3 school)))
     = Json 200 course_c1"
proof -
  have f: "Course_findById school id_c1 = Some course_c1"
    by (simp add: Course_findById_def school_defs)
  have g: "authorizeRoles [Admin, Teacher] teacher_t1" "teaches teacher_t1 course_c1 = Pass"
    by (simp_all add: authorizeRoles_def teaches_def school_defs)
  have m: "id_s3 \<notin> set (c_students course_c1)" by (simp add: school_defs)
  from unenroll_absent_student_is_noop[OF g(1) f g(2) m] f g m show ?thesis by simp
qed



subsection \<open>Course creation\<close>

text \<open>Without a \<open>teacherId\<close> in the request, a created course belongs to the caller.\<close>

lemma create_course_defaults_to_caller:
  assumes "create_course nid now u b d = (Json 201 c, d')" and "\<not> truthy (cb_teacherId b)"
  shows "c_teacherId c = Some (uid u)"
  using assms
  by (auto simp: create_course_def Let_def split: if_splits option.splits prod.splits)

text \<open>
  Claim C3. Teacher \<open>t1\<close> creates a course and names teacher \<open>t2\<close> as its teacher: the
  request is not rejected, the course is stored and belongs to \<open>t2\<close>.
\<close>

theorem create_course_teacher_assigns_other_teacher:
  "create_course id_c3 5 teacher_t1
     \<lparr>cb_name = Some ''Chemistry'', cb_courseCode = Some ''CHE'', cb_description = None,
      cb_teacherId = Some id_t2\<rparr> school =
   (Json 201 \<lparr>c_id = id_c3, c_name = ''Chemistry'', c_courseCode = ''CHE'',
      c_description = None, c_teacherId = Some id_t2, c_students = [], c_createdAt = 5\<rparr>,
    school\<lparr>courses := [course_c1, course_c2,
      \<lparr>c_id = id_c3, c_name = ''Chemistry'', c_courseCode = ''CHE'',
       c_description = None, c_teacherId = Some id_t2, c_students = [], c_createdAt = 5\<rparr>]\<rparr>)"
  by (simp add: create_course_def authorizeRoles_def User_findOne_role_def truthy_def
      course_valid_def Let_def school_defs)

subsection \<open>Infractions\<close>

lemma Infraction_new_keys: "fst ` set (Infraction_new obj) \<subseteq> set infractionSchema"
  by (induction obj) (auto simp: Infraction_new_def split: option.splits if_splits)

text \<open>Whatever is sent, a created infraction holds none of the three undeclared paths.\<close>

lemma create_infraction_schema_only:
  assumes "create_infraction now u b d = (Json 201 x, d')"
  shows "map_of x ''resolved'' = None \<and> map_of x ''resolution'' = None \<and>
         map_of x ''severity'' = None"
proof -
  from assms obtain obj where x: "x = Infraction_new obj"
    by (auto simp: create_infraction_def Let_def split: if_splits)
  have "fst ` set x \<subseteq> set infractionSchema"
    unfolding x by (rule Infraction_new_keys)
  then have "''resolved'' \<notin> fst ` set x" "''resolution'' \<notin> fst ` set x"
    "''severity'' \<notin> fst ` set x"
    by (auto simp: infractionSchema_def)
  then show ?thesis by (simp add: map_of_eq_None_iff)
qed

text \<open>
  Claim C10. An infraction is reported with severity \<open>major\<close> and a resolution text. The
  record that is stored, and returned, has neither \<open>severity\<close> nor \<open>resolution\<close> nor
  \<open>resolved\<close>: the schema does not declare them.
\<close>

theorem create_infraction_drops_resolution:
  "create_infraction 7 teacher_t1
     \<lparr>ib_studentId = Some id_s1, ib_type = Some ''behavioral'',
      ib_description = Some ''Talking in class'', ib_severity = Some ''major'',
      ib_date = Some 3, ib_resolution = Some ''Apologised''\<rparr> school =
   (Json 201 [(''studentId'', Str id_s1), (''type'', Str ''behavioral''),
      (''description'', Str ''Talking in class''), (''date'', Num 3),
      (''reportedBy'', Str id_t1)],
    school\<lparr>infractions := [[(''studentId'', Str id_s1), (''type'', Str ''behavioral''),
      (''description'', Str ''Talking in class''), (''date'', Num 3),
      (''reportedBy'', Str id_t1)]]\<rparr>) \<and>
   map_of [(''studentId'', Str id_s1), (''type'', Str ''behavioral''),
      (''description'', Str ''Talking in class''), (''date'', Num 3),
      (''reportedBy'', Str id_t1)] ''resolved'' = None"
  by (simp add: create_infraction_def authorizeRoles_def User_findOne_role_def truthy_def
      Infraction_new_def infractionSchema_def infraction_valid_def required_str_def
      or_else_def Let_def school_defs)

subsection \<open>Listing grades\<close>

lemma set_order_by: "set (order_by k desc xs) = set xs"
  by (simp add: order_by_def)

lemma set_sort_grades: "set (sort_grades srt xs) = set xs"
  by (auto simp: sort_grades_def Let_def set_order_by split: option.splits)

lemma set_window: "set (window m n xs) \<subseteq> set xs"
  using set_take_subset[of n "drop m xs"] set_drop_subset[of m xs]
  by (auto simp: window_def)

lemma in_window: "x \<in> set (window m n xs) \<Longrightarrow> x \<in> set xs"
  using set_window[of m n xs] by blast

lemma paginate_items: "paginate pg lm dflt xs = Some l \<Longrightarrow> set (items l) \<subseteq> set xs"
  by (auto simp: paginate_def Let_def split: if_splits dest: in_window)

lemma Grade_find_items:
  "Grade_find q p d = Json n l \<Longrightarrow> g \<in> set (items l) \<Longrightarrow> g \<in> set (grades d) \<and> grade_matches q g"
  by (auto simp: Grade_find_def set_sort_grades split: option.splits dest!: paginate_items)

text \<open>
  A teacher who sends neither filter receives grades of owned courses only, and a teacher
  who filters by a course that belongs to someone else is refused.
\<close>

lemma list_grades_teacher_unfiltered:
  assumes "role u = Teacher" "\<not> truthy (p_studentId p)" "\<not> truthy (p_courseId p)"
    "list_grades u p d = Json n l" "g \<in> set (items l)"
  shows "g_courseId g \<in> set (owned_courses u d)"
proof -
  from assms(1-4) have "Grade_find \<lparr>q_studentId = eq_filter (p_studentId p),
      q_courseId = In (owned_courses u d)\<rparr> p d = Json n l"
    by (simp add: list_grades_def Let_def owned_courses_def)
  from Grade_find_items[OF this assms(5)] show ?thesis
    by (simp add: grade_matches_def)
qed

lemma list_grades_teacher_foreign_course:
  assumes "role u = Teacher" "p_courseId p = Some cid" "cid \<noteq> []"
    "Course_findById d cid = Some c" "c_teacherId c = Some t" "t \<noteq> uid u"
  shows "list_grades u p d = Fail 403 ''Access denied to this course''"
  using assms by (simp add: list_grades_def truthy_def)

text \<open>
  Claim C1. Teacher \<open>t1\<close> owns course \<open>c1\<close> only and lists grades with the single filter
  \<open>studentId = s1\<close>: the reply holds the grade of \<open>s1\<close> in course \<open>c2\<close>, which \<open>t1\<close>
  does not own.
\<close>

theorem list_grades_student_filter_escapes_scope:
  "list_grades teacher_t1
     \<lparr>p_studentId = Some id_s1, p_courseId = None, p_sort = None, p_page = None,
      p_limit = None\<rparr> school =
   Json 200 \<lparr>items = [grade_g2, grade_g1], total = 2, page = 1, pages = Some 1\<rparr> \<and>
   g_courseId grade_g2 = id_c2 \<and> owned_courses teacher_t1 school = [id_c1]"
  by (simp add: list_grades_def Grade_find_def paginate_def window_def sort_grades_def order_by_def
      eq_filter_def grade_matches_def truthy_def owned_courses_def Let_def school_defs)



subsection \<open>Listing users\<close>










subsection \<open>References to documents that do not exist\<close>






subsection \<open>Grade statistics\<close>











subsection \<open>Attendance\<close>





























end
